theory Spec2Isabelle
  imports Complex_Main
begin

section \<open>Data model\<close>

text \<open>
  The controllers are Express handlers over Mongoose collections. A handler is modelled as
  a function from the collections it touches and the parts of the request it reads to the
  collections it leaves behind and the JSON response it sends.

  A collection addressed by \<open>findById\<close> is a map from the document id to the document.
  The document store itself is an external collaborator: its operations are taken to
  succeed, so the \<open>catch\<close> branch of a handler (status 500) is reached in the model only
  where the handler's own code throws, which is where it reads a property of \<open>null\<close> or
  \<open>undefined\<close>.

  \<open>req.user\<close> is what the authentication middleware attached to the request; it is absent
  (\<open>None\<close>) when no middleware ran. \<open>req.user.id\<close> and \<open>req.user._id.toString()\<close> are the
  same string, the field \<open>u_id\<close>. The password hash of a user plays no part in the handlers
  modelled here and is left out of the record. A date of a session is a time stamp, or
  \<open>None\<close> for \<open>null\<close>.
\<close>

record user =
  u_id :: string
  username :: string
  email :: string
  role :: string

record session =
  userId :: string
  interviewType :: string
  startTime :: "int option"
  endTime :: "int option"
  status :: string
  feedback :: "string option"

text \<open>
  A response: the HTTP status, the \<open>message\<close> field of the JSON body (empty when the body
  has none) and the document sent back, if any.
\<close>

datatype 'a response = Response (code: nat) (message: string) (payload: "'a option")

text \<open>JavaScript truthiness of a value that is a string or absent.\<close>

fun truthy :: "string option \<Rightarrow> bool" where
  "truthy None = False"
| "truthy (Some s) = (s \<noteq> [])"

section \<open>Interview sessions\<close>

text \<open>
  \<open>getInterviewSessionById\<close>: the session is loaded with its owner populated, so
  \<open>session.userId\<close> is the owner's user document, or \<open>null\<close> when that user is gone.
  The role is read from the user collection again. The three-way conjunction is evaluated
  left to right: the owner is only looked at for a caller that is neither admin nor
  interviewer. For such a caller \<open>session.userId.toString()\<close> is the string form of the
  whole populated document, which is never an id: the comparison with \<open>req.user.id\<close>
  finds them different, for the owner of the session as for anyone else.
\<close>

definition getInterviewSessionById ::
  "(string \<rightharpoonup> user) \<Rightarrow> (string \<rightharpoonup> session) \<Rightarrow> user option \<Rightarrow> string \<Rightarrow> session response" where
  "getInterviewSessionById users sessions req_user sid =
     (case sessions sid of
        None \<Rightarrow> Response 404 ''Interview session not found'' None
      | Some session \<Rightarrow>
          (case req_user of
             None \<Rightarrow> Response 500 ''Failed to retrieve interview session'' None
           | Some ru \<Rightarrow>
               (case users (u_id ru) of
                  None \<Rightarrow> Response 500 ''Failed to retrieve interview session'' None
                | Some usr \<Rightarrow>
                    if role usr \<noteq> ''admin'' \<and> role usr \<noteq> ''interviewer'' then
                      (case users (userId session) of
                         None \<Rightarrow> Response 500 ''Failed to retrieve interview session'' None
                       | Some owner \<Rightarrow> Response 403 ''Permission denied'' None)
                    else Response 200 [] (Some session))))"

text \<open>
  \<open>deleteInterviewSession\<close>: the session must exist, then only the role decides.
\<close>

definition deleteInterviewSession ::
  "(string \<rightharpoonup> user) \<Rightarrow> (string \<rightharpoonup> session) \<Rightarrow> user option \<Rightarrow> string
     \<Rightarrow> (string \<rightharpoonup> session) \<times> session response" where
  "deleteInterviewSession users sessions req_user sid =
     (case sessions sid of
        None \<Rightarrow> (sessions, Response 404 ''Interview session not found'' None)
      | Some session \<Rightarrow>
          (case req_user of
             None \<Rightarrow> (sessions, Response 500 ''Failed to delete interview session'' None)
           | Some ru \<Rightarrow>
               (case users (u_id ru) of
                  None \<Rightarrow> (sessions, Response 500 ''Failed to delete interview session'' None)
                | Some usr \<Rightarrow>
                    if role usr \<noteq> ''admin''
                    then (sessions, Response 403 ''Only administrators can delete sessions'' None)
                    else (sessions(sid := None),
                          Response 200 ''Interview session deleted successfully'' None))))"


text \<open>
  The body of a session request: every field is a string or absent. \<open>findByIdAndUpdate\<close>
  assigns the fields that are present; \<open>setField\<close> is that assignment for one field.
\<close>

record sessionBody =
  b_userId :: "string option"
  b_interviewType :: "string option"
  b_startTime :: "string option"
  b_endTime :: "string option"
  b_status :: "string option"
  b_feedback :: "string option"

definition setField :: "'a option \<Rightarrow> 'a \<Rightarrow> 'a" where
  "setField new old = (case new of None \<Rightarrow> old | Some v \<Rightarrow> v)"

text \<open>
  A date field of the body after the handler's conversion. \<open>new Date(s)\<close> is the parameter
  \<open>parseDate\<close>, with \<open>None\<close> for an Invalid Date. An empty string is falsy: it is not
  converted and takes no part in the comparison of the two dates, but it is still handed
  to \<open>findByIdAndUpdate\<close>, which stores \<open>null\<close> for it. An absent field leaves the stored
  date as it is.
\<close>

datatype dateField = Absent | Empty | Invalid | Date int




text \<open>
  The owner of a new session, \<open>userId || req.user.id\<close>: the right operand is only
  evaluated when the left one is falsy, and throws (\<open>None\<close>) when \<open>req.user\<close> is absent.
\<close>

definition ownerOrCaller :: "string option \<Rightarrow> user option \<Rightarrow> string option" where
  "ownerOrCaller uidField req_user =
     (if truthy uidField then uidField else map_option u_id req_user)"

definition validInterviewTypes :: "string list" where
  "validInterviewTypes = [''Technical'', ''HR'', ''System Design'', ''Behavioral'']"

text \<open>
  \<open>createInterviewSession\<close> (the version with validation). \<open>newId\<close> is the id the store
  gives the new document.
\<close>

definition createInterviewSession ::
  "(string \<Rightarrow> int option) \<Rightarrow> string \<Rightarrow> (string \<rightharpoonup> session) \<Rightarrow> user option \<Rightarrow> sessionBody
     \<Rightarrow> (string \<rightharpoonup> session) \<times> session response" where
  "createInterviewSession parseDate newId sessions req_user body =
     (case (b_interviewType body, b_startTime body, b_endTime body) of
        (Some it, Some st, Some et) \<Rightarrow>
          if it = [] \<or> st = [] \<or> et = []
          then (sessions, Response 400 ''All required fields must be provided'' None)
          else
            (case (parseDate st, parseDate et) of
               (Some startDate, Some endDate) \<Rightarrow>
                 if startDate \<ge> endDate
                 then (sessions, Response 400 ''End time must be after start time'' None)
                 else if it \<notin> set validInterviewTypes
                 then (sessions, Response 400 ''Invalid interview type'' None)
                 else
                   (case ownerOrCaller (b_userId body) req_user of
                      None \<Rightarrow>
                        (sessions, Response 500 ''Failed to create interview session'' None)
                    | Some owner \<Rightarrow>
                        (let newSession =
                               \<lparr>userId = owner, interviewType = it, startTime = Some startDate,
                                endTime = Some endDate, status = ''Pending'',
                                feedback = None\<rparr>
                         in (sessions(newId \<mapsto> newSession),
                             Response 201 [] (Some newSession))))
             | _ \<Rightarrow> (sessions, Response 400 ''Invalid date format provided'' None))
      | _ \<Rightarrow> (sessions, Response 400 ''All required fields must be provided'' None))"

text \<open>
  \<open>createInterviewSession\<close> as the second copy of the controller has it: only the presence
  of the three fields is checked. An Invalid Date cannot be stored: the save throws.
\<close>

definition createInterviewSession_v2 ::
  "(string \<Rightarrow> int option) \<Rightarrow> string \<Rightarrow> (string \<rightharpoonup> session) \<Rightarrow> user option \<Rightarrow> sessionBody
     \<Rightarrow> (string \<rightharpoonup> session) \<times> session response" where
  "createInterviewSession_v2 parseDate newId sessions req_user body =
     (case (b_interviewType body, b_startTime body, b_endTime body) of
        (Some it, Some st, Some et) \<Rightarrow>
          if it = [] \<or> st = [] \<or> et = []
          then (sessions, Response 400 ''All required fields must be provided'' None)
          else
            (case (ownerOrCaller (b_userId body) req_user, parseDate st, parseDate et) of
               (Some owner, Some startDate, Some endDate) \<Rightarrow>
                 (let newSession =
                        \<lparr>userId = owner, interviewType = it, startTime = Some startDate,
                         endTime = Some endDate, status = ''Pending'', feedback = None\<rparr>
                  in (sessions(newId \<mapsto> newSession), Response 201 [] (Some newSession)))
             | _ \<Rightarrow> (sessions, Response 500 ''Failed to create interview session'' None))
      | _ \<Rightarrow> (sessions, Response 400 ''All required fields must be provided'' None))"

section \<open>Submissions\<close>

record submission =
  sub_userId :: string
  sub_problemId :: string
  sub_code :: string
  language :: string
  sub_status :: string
  sub_result :: "string option"
  executionTime :: "rat option"

text \<open>
  \<open>getSubmissionById\<close>: the submission is loaded with its owner populated, and the owner's
  \<open>_id\<close> is read only when the caller is not an admin; for a submission whose owner is
  gone that read throws.
\<close>

definition getSubmissionById ::
  "(string \<rightharpoonup> user) \<Rightarrow> (string \<rightharpoonup> submission) \<Rightarrow> user option \<Rightarrow> string
     \<Rightarrow> submission response" where
  "getSubmissionById users submissions req_user subid =
     (case req_user of
        None \<Rightarrow> Response 401 ''Authentication required'' None
      | Some ru \<Rightarrow>
          (case submissions subid of
             None \<Rightarrow> Response 404 ''Submission not found'' None
           | Some sub \<Rightarrow>
               if role ru \<noteq> ''admin'' then
                 (case users (sub_userId sub) of
                    None \<Rightarrow> Response 500 ''Failed to fetch submission'' None
                  | Some owner \<Rightarrow>
                      if sub_userId sub \<noteq> u_id ru
                      then Response 403 ''Access denied to this submission'' None
                      else Response 200 [] (Some sub))
               else Response 200 [] (Some sub)))"



section \<open>Problems\<close>

text \<open>
  The fields are those \<open>createProblem\<close> fills in, and \<open>approved\<close>; \<open>tags\<close>, \<open>input\<close> and
  \<open>output\<close> carry the prefix \<open>p_\<close>.
\<close>

record problem =
  creatorId :: string
  title :: string
  description :: string
  difficulty :: string
  p_tags :: "string list"
  p_input :: string
  p_output :: string
  constraints :: string
  leetcodeId :: string
  approved :: bool


text \<open>
  \<open>updateProblem\<close>: the handler never looks into the body, which is modelled by the field
  assignment \<open>updates\<close> that \<open>findByIdAndUpdate\<close> performs with it.
\<close>

definition updateProblem ::
  "(string \<rightharpoonup> problem) \<Rightarrow> user option \<Rightarrow> string \<Rightarrow> (problem \<Rightarrow> problem)
     \<Rightarrow> (string \<rightharpoonup> problem) \<times> problem response" where
  "updateProblem problems req_user pid updates =
     (case problems pid of
        None \<Rightarrow> (problems, Response 404 ''Problem not found'' None)
      | Some p \<Rightarrow>
          (case req_user of
             None \<Rightarrow> (problems, Response 500 ''Error updating problem'' None)
           | Some ru \<Rightarrow>
               if creatorId p \<noteq> u_id ru \<and> role ru \<noteq> ''admin''
               then (problems, Response 403 ''Not authorized to update this problem'' None)
               else (problems(pid \<mapsto> updates p), Response 200 [] (Some (updates p)))))"

definition deleteProblem ::
  "(string \<rightharpoonup> problem) \<Rightarrow> user option \<Rightarrow> string \<Rightarrow> (string \<rightharpoonup> problem) \<times> problem response" where
  "deleteProblem problems req_user pid =
     (case problems pid of
        None \<Rightarrow> (problems, Response 404 ''Problem not found'' None)
      | Some p \<Rightarrow>
          (case req_user of
             None \<Rightarrow> (problems, Response 500 ''Error deleting problem'' None)
           | Some ru \<Rightarrow>
               if creatorId p \<noteq> u_id ru \<and> role ru \<noteq> ''admin''
               then (problems, Response 403 ''Not authorized to delete this problem'' None)
               else (problems(pid := None), Response 200 ''Problem deleted successfully'' None)))"

section \<open>Interview questions\<close>

record question =
  session_id :: string
  question_text :: string
  submittedAnswer :: "string option"
  q_feedback :: "string option"
  answer :: "string option"

text \<open>
  \<open>checkSessionParticipant\<close> receives a session id in one caller and a populated session in
  the others, and looks at neither.
\<close>

definition checkSessionParticipant :: "'a \<Rightarrow> string \<Rightarrow> bool" where
  "checkSessionParticipant sessionId uid = True"

definition submitAnswer ::
  "(string \<rightharpoonup> session) \<Rightarrow> (string \<rightharpoonup> question) \<Rightarrow> user option \<Rightarrow> string \<Rightarrow> string option
     \<Rightarrow> (string \<rightharpoonup> question) \<times> question response" where
  "submitAnswer sessions questions req_user qid submitted =
     (case req_user of
        None \<Rightarrow> (questions, Response 401 ''Authentication required'' None)
      | Some ru \<Rightarrow>
          (case questions qid of
             None \<Rightarrow> (questions, Response 404 ''Interview question not found'' None)
           | Some q \<Rightarrow>
               (let isParticipant = checkSessionParticipant (sessions (session_id q)) (u_id ru)
                in if \<not> isParticipant
                   then (questions,
                         Response 403 ''Access denied to submit answer for this question'' None)
                   else (questions(qid \<mapsto> q\<lparr>submittedAnswer := submitted\<rparr>),
                         Response 200 [] (Some (q\<lparr>submittedAnswer := submitted\<rparr>))))))"

section \<open>JavaScript numbers\<close>

text \<open>
  A Number is an IEEE 754 double: \<open>NaN\<close>, an infinity (with the flag set for the negative
  one), or a finite value, given as the rational it denotes. \<open>fl\<close> rounds a rational to
  the nearest double, ties to the even significand, with the subnormal range below
  \<open>2^-1022\<close> and overflow to an infinity from \<open>2^1024 - 2^970\<close> on. Every arithmetic
  operation computes exactly and rounds once. The sign of zero is not kept: the one
  division of the handlers divides by \<open>problemsSolved + 1\<close>, which is never negative zero.
\<close>

datatype jsnum = NaN | Infinity bool | Num rat












section \<open>User statistics\<close>

text \<open>
  The statistics collection is searched by \<open>findOne({ userId })\<close>, so it is a list of
  documents and the first one with the user id is the one found. The schema defaults of a
  new document are the parameter \<open>dflt\<close>; \<open>Date.now()\<close> is the parameter \<open>now\<close>. A number of
  a request body is a JSON number and so a finite double.
\<close>

record userStats =
  stats_userId :: string
  problemsSolved :: jsnum
  averageScore :: jsnum
  timeSpent :: jsnum
  studyPlan :: string
  lastUpdated :: int

definition findStats :: "string \<Rightarrow> userStats list \<Rightarrow> userStats option" where
  "findStats uid stats = find (\<lambda>us. stats_userId us = uid) stats"

text \<open>Writing a document back replaces the first document of the user in the list.\<close>

fun replaceFirst :: "('a \<Rightarrow> bool) \<Rightarrow> 'a \<Rightarrow> 'a list \<Rightarrow> 'a list" where
  "replaceFirst P y [] = []"
| "replaceFirst P y (x # xs) = (if P x then y # xs else x # replaceFirst P y xs)"

definition getUserStats ::
  "userStats \<Rightarrow> userStats list \<Rightarrow> user option \<Rightarrow> string
     \<Rightarrow> userStats list \<times> userStats response" where
  "getUserStats dflt stats req_user uid =
     (case findStats uid stats of
        Some us \<Rightarrow> (stats, Response 200 [] (Some us))
      | None \<Rightarrow>
          (let us = dflt\<lparr>stats_userId := uid\<rparr>
           in (stats @ [us], Response 200 [] (Some us))))"

text \<open>
  The body of \<open>updateUserStats\<close> is spread into the update as it is, so each field of the
  schema that the body has is assigned, \<open>userId\<close> included; \<open>lastUpdated\<close> comes last and
  always carries the current time. Keys that are not fields of the schema are not modelled.
  With \<open>upsert\<close> a missing document is created from the query and the defaults first.
\<close>

record statsUpdates =
  up_userId :: "string option"
  up_problemsSolved :: "rat option"
  up_averageScore :: "rat option"
  up_timeSpent :: "rat option"
  up_studyPlan :: "string option"

definition applyStatsUpdates :: "statsUpdates \<Rightarrow> int \<Rightarrow> userStats \<Rightarrow> userStats" where
  "applyStatsUpdates updates now old =
     old\<lparr>stats_userId := setField (up_userId updates) (stats_userId old),
         problemsSolved :=
           setField (map_option Num (up_problemsSolved updates)) (problemsSolved old),
         averageScore := setField (map_option Num (up_averageScore updates)) (averageScore old),
         timeSpent := setField (map_option Num (up_timeSpent updates)) (timeSpent old),
         studyPlan := setField (up_studyPlan updates) (studyPlan old),
         lastUpdated := now\<rparr>"

definition updateUserStats ::
  "userStats \<Rightarrow> int \<Rightarrow> userStats list \<Rightarrow> user option \<Rightarrow> string \<Rightarrow> statsUpdates
     \<Rightarrow> userStats list \<times> userStats response" where
  "updateUserStats dflt now stats req_user uid updates =
     (case findStats uid stats of
        None \<Rightarrow>
          (let us = applyStatsUpdates updates now (dflt\<lparr>stats_userId := uid\<rparr>)
           in (stats @ [us],
               Response 200 ''User statistics updated successfully'' (Some us)))
      | Some old \<Rightarrow>
          (let us = applyStatsUpdates updates now old
           in (replaceFirst (\<lambda>d. stats_userId d = uid) us stats,
               Response 200 ''User statistics updated successfully'' (Some us))))"



section \<open>Problem tags\<close>

text \<open>
  The tag collection is searched by content, so it is a list of documents: nothing in the
  model keeps two documents with the same pair apart but the handler's own check.
\<close>

record problemTag =
  tag_id :: string
  problemId :: string
  tag :: string

definition createProblemTag ::
  "string \<Rightarrow> problemTag list \<Rightarrow> user option \<Rightarrow> string \<Rightarrow> string
     \<Rightarrow> problemTag list \<times> problemTag response" where
  "createProblemTag newId tags req_user pid t =
     (case req_user of
        None \<Rightarrow> (tags, Response 403 ''Access denied. Admin privileges required.'' None)
      | Some ru \<Rightarrow>
          if role ru \<noteq> ''admin''
          then (tags, Response 403 ''Access denied. Admin privileges required.'' None)
          else
            (case find (\<lambda>pt. problemId pt = pid \<and> tag pt = t) tags of
               Some existingTag \<Rightarrow>
                 (tags, Response 400 ''This tag is already assigned to the problem'' None)
             | None \<Rightarrow>
                 (let newProblemTag = \<lparr>tag_id = newId, problemId = pid, tag = t\<rparr>
                  in (tags @ [newProblemTag], Response 201 [] (Some newProblemTag)))))"

section \<open>User administration\<close>

definition updateUserRole ::
  "(string \<rightharpoonup> user) \<Rightarrow> user option \<Rightarrow> string \<Rightarrow> string option
     \<Rightarrow> (string \<rightharpoonup> user) \<times> user response" where
  "updateUserRole users req_user target newRole =
     (case req_user of
        None \<Rightarrow> (users, Response 500 ''Error updating user role'' None)
      | Some ru \<Rightarrow>
          if role ru \<noteq> ''admin''
          then (users, Response 403 ''Admin access required'' None)
          else
            (case newRole of
               None \<Rightarrow> (users, Response 400 ''Invalid role'' None)
             | Some r \<Rightarrow>
                 if r \<noteq> ''user'' \<and> r \<noteq> ''admin''
                 then (users, Response 400 ''Invalid role'' None)
                 else
                   (case users target of
                      None \<Rightarrow> (users, Response 404 ''User not found'' None)
                    | Some u \<Rightarrow>
                        (users(target \<mapsto> u\<lparr>role := r\<rparr>),
                         Response 200 (''User role updated to '' @ r)
                           (Some (u\<lparr>role := r\<rparr>))))))"

text \<open>
  \<open>deleteUser\<close> looks at the path id twice: the guard against deleting oneself compares
  it with \<open>req.user._id.toString()\<close> as a string, and \<open>findByIdAndDelete\<close> casts it to an
  ObjectId first. The cast takes 24 hexadecimal digits in either case; the ids of the
  collection are in lower case, as \<open>toString\<close> gives them. Any other string is refused by
  the cast, which throws.
\<close>

definition lowerHex :: "char \<Rightarrow> char option" where
  "lowerHex c =
     (if c \<in> set ''0123456789abcdef'' then Some c
      else if c = CHR ''A'' then Some (CHR ''a'')
      else if c = CHR ''B'' then Some (CHR ''b'')
      else if c = CHR ''C'' then Some (CHR ''c'')
      else if c = CHR ''D'' then Some (CHR ''d'')
      else if c = CHR ''E'' then Some (CHR ''e'')
      else if c = CHR ''F'' then Some (CHR ''f'')
      else None)"

definition castObjectId :: "string \<Rightarrow> string option" where
  "castObjectId s = (if length s = 24 then those (map lowerHex s) else None)"

definition deleteUser ::
  "(string \<rightharpoonup> user) \<Rightarrow> user option \<Rightarrow> string \<Rightarrow> (string \<rightharpoonup> user) \<times> user response" where
  "deleteUser users req_user target =
     (case req_user of
        None \<Rightarrow> (users, Response 500 ''Error deleting user'' None)
      | Some ru \<Rightarrow>
          if role ru \<noteq> ''admin''
          then (users, Response 403 ''Admin access required'' None)
          else if target = u_id ru
          then (users, Response 400 ''Cannot delete your own account'' None)
          else
            (case castObjectId target of
               None \<Rightarrow> (users, Response 500 ''Error deleting user'' None)
             | Some oid \<Rightarrow>
                 (case users oid of
                    None \<Rightarrow> (users, Response 404 ''User not found'' None)
                  | Some deletedUser \<Rightarrow>
                      (users(oid := None),
                       Response 200 ''User deleted successfully'' None))))"

section \<open>Sample data\<close>

text \<open>A small population on which the theorems below are instantiated.\<close>

definition root :: user where
  "root = \<lparr>u_id = ''u0'', username = ''root'', email = ''root@x'', role = ''admin''\<rparr>"

definition ann :: user where
  "ann = \<lparr>u_id = ''u1'', username = ''ann'', email = ''ann@x'', role = ''user''\<rparr>"

definition bob :: user where
  "bob = \<lparr>u_id = ''u2'', username = ''bob'', email = ''bob@x'', role = ''interviewer''\<rparr>"

definition carl :: user where
  "carl = \<lparr>u_id = ''u3'', username = ''carl'', email = ''carl@x'', role = ''user''\<rparr>"

definition users0 :: "string \<rightharpoonup> user" where
  "users0 = [''u0'' \<mapsto> root, ''u1'' \<mapsto> ann, ''u2'' \<mapsto> bob, ''u3'' \<mapsto> carl]"

definition sess1 :: session where
  "sess1 = \<lparr>userId = ''u1'', interviewType = ''HR'', startTime = Some 1, endTime = Some 2,
            status = ''Pending'', feedback = None\<rparr>"

definition sessions0 :: "string \<rightharpoonup> session" where
  "sessions0 = [''s1'' \<mapsto> sess1]"

definition sub1 :: submission where
  "sub1 = \<lparr>sub_userId = ''u1'', sub_problemId = ''p1'', sub_code = ''x'', language = ''js'',
           sub_status = ''Pending'', sub_result = None, executionTime = None\<rparr>"

definition submissions0 :: "string \<rightharpoonup> submission" where
  "submissions0 = [''b1'' \<mapsto> sub1]"

definition prob1 :: problem where
  "prob1 = \<lparr>creatorId = ''u1'', title = ''t'', description = ''d'', difficulty = ''Easy'',
            p_tags = [''dp''], p_input = ''i'', p_output = ''o'', constraints = ''c'',
            leetcodeId = ''1'', approved = False\<rparr>"

definition problems0 :: "string \<rightharpoonup> problem" where
  "problems0 = [''p1'' \<mapsto> prob1]"

definition quest1 :: question where
  "quest1 = \<lparr>session_id = ''s1'', question_text = ''why'', submittedAnswer = None,
             q_feedback = None, answer = None\<rparr>"

definition questions0 :: "string \<rightharpoonup> question" where
  "questions0 = [''q1'' \<mapsto> quest1]"

definition noBody :: sessionBody where
  "noBody = \<lparr>b_userId = None, b_interviewType = None, b_startTime = None, b_endTime = None,
             b_status = None, b_feedback = None\<rparr>"

definition clock :: "string \<Rightarrow> int option" where
  "clock s = (if s = ''day1'' then Some 1 else if s = ''day2'' then Some 2 else None)"

definition newBody :: "string option \<Rightarrow> sessionBody" where
  "newBody owner = \<lparr>b_userId = owner, b_interviewType = Some ''HR'',
                    b_startTime = Some ''day1'', b_endTime = Some ''day2'',
                    b_status = None, b_feedback = None\<rparr>"

definition stats0 :: userStats where
  "stats0 = \<lparr>stats_userId = [], problemsSolved = Num 0, averageScore = Num 0,
             timeSpent = Num 0, studyPlan = [], lastUpdated = 0\<rparr>"

definition twoSolved :: userStats where
  "twoSolved = stats0\<lparr>stats_userId := ''u1'', problemsSolved := Num 2\<rparr>"

definition someUpdates :: statsUpdates where
  "someUpdates = \<lparr>up_userId = None, up_problemsSolved = Some 99, up_averageScore = None,
                  up_timeSpent = None, up_studyPlan = Some ''graphs''\<rparr>"

definition boss :: user where
  "boss = \<lparr>u_id = ''64b7f3a2c1d4e5f6a7b8c9d0'', username = ''boss'', email = ''boss@x'',
           role = ''admin''\<rparr>"

definition users1 :: "string \<rightharpoonup> user" where
  "users1 = [''64b7f3a2c1d4e5f6a7b8c9d0'' \<mapsto> boss]"

section \<open>Properties\<close>

lemmas sample_defs = root_def ann_def bob_def carl_def users0_def sess1_def sessions0_def
  sub1_def submissions0_def prob1_def problems0_def quest1_def questions0_def noBody_def
  clock_def newBody_def stats0_def someUpdates_def twoSolved_def boss_def users1_def

subsection \<open>The ownership gates\<close>

text \<open>
  In the theorems below an authenticated caller is a user \<open>ru\<close> that the user collection
  resolves to itself, \<open>users (u_id ru) = Some ru\<close>: this is what the authentication
  middleware attaches to the request.
\<close>

text \<open>
  C1. An admin passes every ownership gate. Whenever the target document exists, reading or
  deleting a session, reading a submission, and updating or deleting a problem all answer
  200 to an admin, whoever owns the document: nothing is assumed about the owner, and none
  of the five handlers answers 403.
\<close>

theorem admin_passes_ownership_gates:
  assumes "role ru = ''admin''" and "users (u_id ru) = Some ru"
    and "sessions sid = Some s" and "submissions subid = Some sub" and "problems pid = Some p"
  shows "getInterviewSessionById users sessions (Some ru) sid = Response 200 [] (Some s)
       \<and> deleteInterviewSession users sessions (Some ru) sid
           = (sessions(sid := None), Response 200 ''Interview session deleted successfully'' None)
       \<and> getSubmissionById users submissions (Some ru) subid = Response 200 [] (Some sub)
       \<and> updateProblem problems (Some ru) pid updates
           = (problems(pid \<mapsto> updates p), Response 200 [] (Some (updates p)))
       \<and> deleteProblem problems (Some ru) pid
           = (problems(pid := None), Response 200 ''Problem deleted successfully'' None)"
  using assms
  by (simp add: getInterviewSessionById_def deleteInterviewSession_def getSubmissionById_def
      updateProblem_def deleteProblem_def)

theorem admin_passes_ownership_gates_witness:
  "role root = ''admin'' \<and> users0 (u_id root) = Some root
   \<and> sessions0 ''s1'' = Some sess1 \<and> submissions0 ''b1'' = Some sub1
   \<and> problems0 ''p1'' = Some prob1
   \<and> userId sess1 \<noteq> u_id root \<and> sub_userId sub1 \<noteq> u_id root \<and> creatorId prob1 \<noteq> u_id root
   \<and> code (getInterviewSessionById users0 sessions0 (Some root) ''s1'') = 200
   \<and> code (snd (deleteInterviewSession users0 sessions0 (Some root) ''s1'')) = 200
   \<and> code (getSubmissionById users0 submissions0 (Some root) ''b1'') = 200
   \<and> code (snd (updateProblem problems0 (Some root) ''p1'' (\<lambda>p. p\<lparr>approved := True\<rparr>))) = 200
   \<and> code (snd (deleteProblem problems0 (Some root) ''p1'')) = 200"
  using admin_passes_ownership_gates [of root users0 sessions0 "''s1''" sess1 submissions0
      "''b1''" sub1 problems0 "''p1''" prob1 "\<lambda>p. p\<lparr>approved := True\<rparr>"]
  by (simp add: sample_defs)





text \<open>
  C6. Deleting an existing interview session answers 403 to every authenticated caller whose
  role is not admin, the owner of the session included, and leaves the collection as it
  was; for an admin it removes the session and answers 200. So the deletion succeeds
  exactly when the caller's role is admin.
\<close>

theorem delete_session_admin_only:
  assumes "sessions sid = Some s" and "users (u_id ru) = Some ru"
  shows "deleteInterviewSession users sessions (Some ru) sid =
           (if role ru = ''admin''
            then (sessions(sid := None),
                  Response 200 ''Interview session deleted successfully'' None)
            else (sessions, Response 403 ''Only administrators can delete sessions'' None))"
  using assms by (simp add: deleteInterviewSession_def)

theorem delete_session_admin_only_witness:
  "sessions0 ''s1'' = Some sess1 \<and> users0 (u_id ann) = Some ann
   \<and> users0 (u_id root) = Some root
   \<and> userId sess1 = u_id ann \<and> role ann \<noteq> ''admin'' \<and> role root = ''admin''
   \<and> deleteInterviewSession users0 sessions0 (Some ann) ''s1''
        = (sessions0, Response 403 ''Only administrators can delete sessions'' None)
   \<and> deleteInterviewSession users0 sessions0 (Some root) ''s1''
        = (sessions0(''s1'' := None),
           Response 200 ''Interview session deleted successfully'' None)"
  using delete_session_admin_only [of sessions0 "''s1''" sess1 users0 ann]
    delete_session_admin_only [of sessions0 "''s1''" sess1 users0 root]
  by (simp add: sample_defs)

subsection \<open>Handlers without an effective gate\<close>

text \<open>
  C3. The participant check answers true for every session reference and every user id.
  Hence submitting an answer to an existing question stores the answer and answers 200 for
  every authenticated caller, the handler never answers 403, and its result does not depend
  on the caller's role: an admin is treated like everyone else.
\<close>

theorem submit_answer_open_to_all:
  "checkSessionParticipant sessionRef uid
   \<and> (questions qid = Some q \<longrightarrow>
        submitAnswer sessions questions (Some ru) qid submitted
          = (questions(qid \<mapsto> q\<lparr>submittedAnswer := submitted\<rparr>),
             Response 200 [] (Some (q\<lparr>submittedAnswer := submitted\<rparr>))))
   \<and> code (snd (submitAnswer sessions questions (Some ru) qid submitted)) \<noteq> 403
   \<and> submitAnswer sessions questions (Some (ru\<lparr>role := r\<rparr>)) qid submitted
        = submitAnswer sessions questions (Some ru) qid submitted"
  by (simp add: checkSessionParticipant_def submitAnswer_def split: option.split)

theorem submit_answer_open_to_all_witness:
  "questions0 ''q1'' = Some quest1
   \<and> userId sess1 \<noteq> u_id carl \<and> role carl \<noteq> ''admin''
   \<and> checkSessionParticipant ''s1'' (u_id carl)
   \<and> submitAnswer sessions0 questions0 (Some carl) ''q1'' (Some ''42'')
        = (questions0(''q1'' \<mapsto> quest1\<lparr>submittedAnswer := Some ''42''\<rparr>),
           Response 200 [] (Some (quest1\<lparr>submittedAnswer := Some ''42''\<rparr>)))
   \<and> submitAnswer sessions0 questions0 (Some (carl\<lparr>role := ''admin''\<rparr>)) ''q1'' (Some ''42'')
        = submitAnswer sessions0 questions0 (Some carl) ''q1'' (Some ''42'')"
  using submit_answer_open_to_all [of "''s1''" "u_id carl" questions0 "''q1''" quest1 sessions0
      carl "Some ''42''" "''admin''"]
  by (simp add: sample_defs)

text \<open>
  C4. The statistics handlers look at no identity. For every caller (or none) and every user
  id in the path, \<open>getUserStats\<close> and \<open>updateUserStats\<close> answer 200, never 403.
  \<open>getUserStats\<close> sends back the user's document, after storing the default one when
  there is none. \<open>updateUserStats\<close> writes to the user's document, or to a new default one
  when there is none, every field that the body has and the current time, stores the
  result in its place and sends it back.
\<close>

theorem user_stats_ungated:
  "(findStats uid stats = None \<longrightarrow>
      getUserStats dflt stats req_user uid
        = (stats @ [dflt\<lparr>stats_userId := uid\<rparr>],
           Response 200 [] (Some (dflt\<lparr>stats_userId := uid\<rparr>)))
    \<and> updateUserStats dflt now stats req_user uid updates
        = (stats @ [applyStatsUpdates updates now (dflt\<lparr>stats_userId := uid\<rparr>)],
           Response 200 ''User statistics updated successfully''
             (Some (applyStatsUpdates updates now (dflt\<lparr>stats_userId := uid\<rparr>)))))
   \<and> (findStats uid stats = Some us \<longrightarrow>
      getUserStats dflt stats req_user uid = (stats, Response 200 [] (Some us))
    \<and> updateUserStats dflt now stats req_user uid updates
        = (replaceFirst (\<lambda>d. stats_userId d = uid) (applyStatsUpdates updates now us) stats,
           Response 200 ''User statistics updated successfully''
             (Some (applyStatsUpdates updates now us))))
   \<and> stats_userId (applyStatsUpdates updates now old)
        = (case up_userId updates of None \<Rightarrow> stats_userId old | Some v \<Rightarrow> v)
   \<and> problemsSolved (applyStatsUpdates updates now old)
        = (case up_problemsSolved updates of None \<Rightarrow> problemsSolved old | Some v \<Rightarrow> Num v)
   \<and> averageScore (applyStatsUpdates updates now old)
        = (case up_averageScore updates of None \<Rightarrow> averageScore old | Some v \<Rightarrow> Num v)
   \<and> timeSpent (applyStatsUpdates updates now old)
        = (case up_timeSpent updates of None \<Rightarrow> timeSpent old | Some v \<Rightarrow> Num v)
   \<and> studyPlan (applyStatsUpdates updates now old)
        = (case up_studyPlan updates of None \<Rightarrow> studyPlan old | Some v \<Rightarrow> v)
   \<and> lastUpdated (applyStatsUpdates updates now old) = now
   \<and> code (snd (getUserStats dflt stats req_user uid)) = 200
   \<and> code (snd (updateUserStats dflt now stats req_user uid updates)) = 200"
  by (simp add: getUserStats_def updateUserStats_def applyStatsUpdates_def setField_def Let_def
      split: option.split)

theorem user_stats_ungated_witness:
  "findStats ''u1'' [] = None
   \<and> u_id carl \<noteq> ''u1''
   \<and> getUserStats stats0 [] (Some carl) ''u1''
        = ([stats0\<lparr>stats_userId := ''u1''\<rparr>],
           Response 200 [] (Some (stats0\<lparr>stats_userId := ''u1''\<rparr>)))
   \<and> updateUserStats stats0 7 [] (Some carl) ''u1'' someUpdates
        = ([\<lparr>stats_userId = ''u1'', problemsSolved = Num 99, averageScore = Num 0,
             timeSpent = Num 0, studyPlan = ''graphs'', lastUpdated = 7\<rparr>],
           Response 200 ''User statistics updated successfully''
             (Some \<lparr>stats_userId = ''u1'', problemsSolved = Num 99, averageScore = Num 0,
                    timeSpent = Num 0, studyPlan = ''graphs'', lastUpdated = 7\<rparr>))
   \<and> findStats ''u1'' [twoSolved] = Some twoSolved
   \<and> getUserStats stats0 [twoSolved] (Some carl) ''u1''
        = ([twoSolved], Response 200 [] (Some twoSolved))
   \<and> updateUserStats stats0 7 [twoSolved] (Some carl) ''u1'' someUpdates
        = ([\<lparr>stats_userId = ''u1'', problemsSolved = Num 99, averageScore = Num 0,
             timeSpent = Num 0, studyPlan = ''graphs'', lastUpdated = 7\<rparr>],
           Response 200 ''User statistics updated successfully''
             (Some \<lparr>stats_userId = ''u1'', problemsSolved = Num 99, averageScore = Num 0,
                    timeSpent = Num 0, studyPlan = ''graphs'', lastUpdated = 7\<rparr>))"
  using user_stats_ungated [of "''u1''" "[]" stats0 "Some carl" 7 someUpdates twoSolved twoSolved]
    user_stats_ungated [of "''u1''" "[twoSolved]" stats0 "Some carl" 7 someUpdates twoSolved
      twoSolved]
  by (simp add: sample_defs findStats_def applyStatsUpdates_def setField_def)

subsection \<open>Creating a session for another user\<close>

text \<open>
  C5 does not hold for every body that has a \<open>userId\<close> field: an empty string is falsy, so
  with \<open>userId: ""\<close> in the body both versions of the handler create a session owned by
  the caller, although the field is present.
\<close>

theorem empty_owner_field_counterexample:
  "b_userId (newBody (Some [])) = Some []
   \<and> u_id ann = ''u1''
   \<and> createInterviewSession clock ''s9'' Map.empty (Some ann) (newBody (Some []))
        = ([''s9'' \<mapsto> \<lparr>userId = ''u1'', interviewType = ''HR'', startTime = Some 1,
                         endTime = Some 2,
                         status = ''Pending'', feedback = None\<rparr>],
           Response 201 []
             (Some \<lparr>userId = ''u1'', interviewType = ''HR'', startTime = Some 1,
                         endTime = Some 2,
                    status = ''Pending'', feedback = None\<rparr>))
   \<and> createInterviewSession_v2 clock ''s9'' Map.empty (Some ann) (newBody (Some []))
        = ([''s9'' \<mapsto> \<lparr>userId = ''u1'', interviewType = ''HR'', startTime = Some 1,
                         endTime = Some 2,
                         status = ''Pending'', feedback = None\<rparr>],
           Response 201 []
             (Some \<lparr>userId = ''u1'', interviewType = ''HR'', startTime = Some 1,
                         endTime = Some 2,
                    status = ''Pending'', feedback = None\<rparr>))"
  by (simp add: sample_defs createInterviewSession_def createInterviewSession_v2_def
      ownerOrCaller_def validInterviewTypes_def Let_def)

lemma ownerOrCaller_role:
  "ownerOrCaller uidField (Some (ru\<lparr>role := r\<rparr>)) = ownerOrCaller uidField (Some ru)"
  by (simp add: ownerOrCaller_def)

lemma created_owner:
  assumes "code (snd (createInterviewSession parseDate newId sessions (Some ru) body)) = 201"
  shows "\<exists>s. createInterviewSession parseDate newId sessions (Some ru) body
               = (sessions(newId \<mapsto> s), Response 201 [] (Some s))
             \<and> userId s = (case b_userId body of
                             None \<Rightarrow> u_id ru
                           | Some x \<Rightarrow> if x = [] then u_id ru else x)"
  using assms
  by (auto simp add: createInterviewSession_def ownerOrCaller_def Let_def
      split: option.splits if_splits)

lemma created_owner_v2:
  assumes "code (snd (createInterviewSession_v2 parseDate newId sessions (Some ru) body)) = 201"
  shows "\<exists>s. createInterviewSession_v2 parseDate newId sessions (Some ru) body
               = (sessions(newId \<mapsto> s), Response 201 [] (Some s))
             \<and> userId s = (case b_userId body of
                             None \<Rightarrow> u_id ru
                           | Some x \<Rightarrow> if x = [] then u_id ru else x)"
  using assms
  by (auto simp add: createInterviewSession_v2_def ownerOrCaller_def Let_def
      split: option.splits if_splits)

text \<open>
  C5, amended. For every authenticated caller, whatever the role, a session that either
  version of \<open>createInterviewSession\<close> creates (status 201) is stored under the new id,
  sent back, and owned by the \<open>userId\<close> of the body when that is a non-empty string; the
  owner is the caller when the body has no \<open>userId\<close> or an empty one. The result does not
  depend on the caller's role.
\<close>

theorem session_owner_from_body:
  "(code (snd (createInterviewSession parseDate newId sessions (Some ru) body)) = 201 \<longrightarrow>
      (\<exists>s. createInterviewSession parseDate newId sessions (Some ru) body
              = (sessions(newId \<mapsto> s), Response 201 [] (Some s))
            \<and> userId s = (case b_userId body of
                            None \<Rightarrow> u_id ru
                          | Some x \<Rightarrow> if x = [] then u_id ru else x)))
   \<and> (code (snd (createInterviewSession_v2 parseDate newId sessions (Some ru) body)) = 201 \<longrightarrow>
      (\<exists>s. createInterviewSession_v2 parseDate newId sessions (Some ru) body
              = (sessions(newId \<mapsto> s), Response 201 [] (Some s))
            \<and> userId s = (case b_userId body of
                            None \<Rightarrow> u_id ru
                          | Some x \<Rightarrow> if x = [] then u_id ru else x)))
   \<and> createInterviewSession parseDate newId sessions (Some (ru\<lparr>role := r\<rparr>)) body
        = createInterviewSession parseDate newId sessions (Some ru) body
   \<and> createInterviewSession_v2 parseDate newId sessions (Some (ru\<lparr>role := r\<rparr>)) body
        = createInterviewSession_v2 parseDate newId sessions (Some ru) body"
proof (intro conjI impI)
  show "createInterviewSession parseDate newId sessions (Some (ru\<lparr>role := r\<rparr>)) body
          = createInterviewSession parseDate newId sessions (Some ru) body"
    unfolding createInterviewSession_def ownerOrCaller_role by (rule refl)
  show "createInterviewSession_v2 parseDate newId sessions (Some (ru\<lparr>role := r\<rparr>)) body
          = createInterviewSession_v2 parseDate newId sessions (Some ru) body"
    unfolding createInterviewSession_v2_def ownerOrCaller_role by (rule refl)
qed (rule created_owner, assumption, rule created_owner_v2, assumption)

theorem session_owner_from_body_witness:
  "role carl \<noteq> ''admin''
   \<and> code (snd (createInterviewSession clock ''s9'' sessions0 (Some carl)
                  (newBody (Some ''u1'')))) = 201
   \<and> code (snd (createInterviewSession_v2 clock ''s9'' sessions0 (Some carl)
                  (newBody (Some ''u1'')))) = 201
   \<and> map_option userId (payload (snd (createInterviewSession clock ''s9'' sessions0 (Some carl)
                  (newBody (Some ''u1''))))) = Some ''u1''
   \<and> map_option userId (payload (snd (createInterviewSession_v2 clock ''s9'' sessions0
                  (Some carl) (newBody (Some ''u1''))))) = Some ''u1''"
  using session_owner_from_body [of clock "''s9''" sessions0 carl "newBody (Some ''u1'')" "''user''"]
  by (simp add: sample_defs createInterviewSession_def createInterviewSession_v2_def
      ownerOrCaller_def validInterviewTypes_def Let_def)

subsection \<open>The running average\<close>














subsection \<open>User administration\<close>

text \<open>
  C8. A role update to a value other than \<open>user\<close> and \<open>admin\<close> (or to no value) never
  changes the user collection and never answers 200; for an admin caller, the only one who
  reaches the validation, the answer is 400 with the message \<open>Invalid role\<close>. In
  particular the roles \<open>interviewer\<close> and \<open>candidate\<close> are rejected.
\<close>

theorem invalid_role_rejected:
  assumes "newRole \<noteq> Some ''user''" and "newRole \<noteq> Some ''admin''"
  shows "fst (updateUserRole users req_user target newRole) = users
       \<and> code (snd (updateUserRole users req_user target newRole)) \<noteq> 200
       \<and> (role ru = ''admin'' \<longrightarrow>
            updateUserRole users (Some ru) target newRole
              = (users, Response 400 ''Invalid role'' None))"
  using assms by (simp add: updateUserRole_def split: option.split)

theorem invalid_role_rejected_witness:
  "Some ''interviewer'' \<noteq> Some ''user'' \<and> Some ''interviewer'' \<noteq> Some ''admin''
   \<and> Some ''candidate'' \<noteq> Some ''user'' \<and> Some ''candidate'' \<noteq> Some ''admin''
   \<and> role root = ''admin''
   \<and> updateUserRole users0 (Some root) ''u1'' (Some ''interviewer'')
        = (users0, Response 400 ''Invalid role'' None)
   \<and> updateUserRole users0 (Some root) ''u1'' (Some ''candidate'')
        = (users0, Response 400 ''Invalid role'' None)
   \<and> map_option role (users0 ''u1'') = Some ''user''"
  using invalid_role_rejected [of "Some ''interviewer''" users0 "Some root" "''u1''" root]
    invalid_role_rejected [of "Some ''candidate''" users0 "Some root" "''u1''" root]
  by (simp add: sample_defs)

lemma find_tag_present:
  assumes "pt \<in> set tags" and "problemId pt = pid" and "tag pt = t"
  shows "find (\<lambda>pt. problemId pt = pid \<and> tag pt = t) tags \<noteq> None"
  using assms by (auto simp add: find_None_iff)

lemma find_tag_absent:
  assumes "\<forall>pt \<in> set tags. \<not> (problemId pt = pid \<and> tag pt = t)"
  shows "find (\<lambda>pt. problemId pt = pid \<and> tag pt = t) tags = None"
  using assms by (auto simp add: find_None_iff)

lemma create_tag_duplicate:
  assumes "role ru = ''admin''" and "pt \<in> set tags" and "problemId pt = pid" and "tag pt = t"
  shows "createProblemTag newId tags (Some ru) pid t
           = (tags, Response 400 ''This tag is already assigned to the problem'' None)"
  using assms(1) find_tag_present [OF assms(2-4)]
  by (auto simp add: createProblemTag_def split: option.split)

lemma create_tag_fresh:
  assumes "role ru = ''admin''"
    and "\<forall>pt \<in> set tags. \<not> (problemId pt = pid \<and> tag pt = t)"
  shows "createProblemTag newId tags (Some ru) pid t
           = (tags @ [\<lparr>tag_id = newId, problemId = pid, tag = t\<rparr>],
              Response 201 [] (Some \<lparr>tag_id = newId, problemId = pid, tag = t\<rparr>))"
  using assms(1) find_tag_absent [OF assms(2)]
  by (simp add: createProblemTag_def Let_def)

text \<open>
  C9. For an admin caller, every problem id and every tag: when the collection already has a
  document with that pair, \<open>createProblemTag\<close> answers 400 and leaves the collection as it
  was; when it has none, the handler appends the new document and answers 201, and a
  second creation of the same pair right after it answers 400 and inserts nothing.
\<close>

theorem duplicate_tag_rejected:
  assumes "role ru = ''admin''" and "role ru' = ''admin''"
  shows "((\<exists>pt \<in> set tags. problemId pt = pid \<and> tag pt = t) \<longrightarrow>
            createProblemTag newId tags (Some ru) pid t
              = (tags, Response 400 ''This tag is already assigned to the problem'' None))
       \<and> ((\<forall>pt \<in> set tags. \<not> (problemId pt = pid \<and> tag pt = t)) \<longrightarrow>
            createProblemTag newId tags (Some ru) pid t
              = (tags @ [\<lparr>tag_id = newId, problemId = pid, tag = t\<rparr>],
                 Response 201 [] (Some \<lparr>tag_id = newId, problemId = pid, tag = t\<rparr>))
          \<and> createProblemTag newId' (fst (createProblemTag newId tags (Some ru) pid t))
                (Some ru') pid t
              = (tags @ [\<lparr>tag_id = newId, problemId = pid, tag = t\<rparr>],
                 Response 400 ''This tag is already assigned to the problem'' None))"
proof (intro conjI impI)
  assume "\<exists>pt \<in> set tags. problemId pt = pid \<and> tag pt = t"
  then obtain pt where "pt \<in> set tags" "problemId pt = pid" "tag pt = t" by blast
  then show "createProblemTag newId tags (Some ru) pid t
               = (tags, Response 400 ''This tag is already assigned to the problem'' None)"
    using assms(1) by (rule create_tag_duplicate [rotated])
next
  assume fresh: "\<forall>pt \<in> set tags. \<not> (problemId pt = pid \<and> tag pt = t)"
  let ?new = "\<lparr>tag_id = newId, problemId = pid, tag = t\<rparr>"
  show first: "createProblemTag newId tags (Some ru) pid t
                 = (tags @ [?new], Response 201 [] (Some ?new))"
    using assms(1) fresh by (rule create_tag_fresh)
  have "createProblemTag newId' (tags @ [?new]) (Some ru') pid t
          = (tags @ [?new], Response 400 ''This tag is already assigned to the problem'' None)"
    by (rule create_tag_duplicate [OF assms(2), of ?new]) simp_all
  then show "createProblemTag newId' (fst (createProblemTag newId tags (Some ru) pid t))
                (Some ru') pid t
               = (tags @ [?new],
                  Response 400 ''This tag is already assigned to the problem'' None)"
    by (simp add: first)
qed

theorem duplicate_tag_rejected_witness:
  "role root = ''admin''
   \<and> set ([] :: problemTag list) = {}
   \<and> createProblemTag ''t1'' [] (Some root) ''p1'' ''dp''
        = ([\<lparr>tag_id = ''t1'', problemId = ''p1'', tag = ''dp''\<rparr>],
           Response 201 [] (Some \<lparr>tag_id = ''t1'', problemId = ''p1'', tag = ''dp''\<rparr>))
   \<and> \<lparr>tag_id = ''t1'', problemId = ''p1'', tag = ''dp''\<rparr>
        \<in> set [\<lparr>tag_id = ''t1'', problemId = ''p1'', tag = ''dp''\<rparr>]
   \<and> createProblemTag ''t2'' [\<lparr>tag_id = ''t1'', problemId = ''p1'', tag = ''dp''\<rparr>]
          (Some root) ''p1'' ''dp''
        = ([\<lparr>tag_id = ''t1'', problemId = ''p1'', tag = ''dp''\<rparr>],
           Response 400 ''This tag is already assigned to the problem'' None)"
  using duplicate_tag_rejected [of root root "[]" "''p1''" "''dp''" "''t1''" "''t2''"]
    duplicate_tag_rejected [of root root "[\<lparr>tag_id = ''t1'', problemId = ''p1'', tag = ''dp''\<rparr>]"
      "''p1''" "''dp''" "''t2''" "''t3''"]
  by (simp add: sample_defs)

lemma delete_user_same_string:
  assumes "role ru = ''admin''"
  shows "deleteUser users (Some ru) (u_id ru)
           = (users, Response 400 ''Cannot delete your own account'' None)"
  using assms by (simp add: deleteUser_def)

lemma cast_upper_case:
  "castObjectId ''64B7F3A2C1D4E5F6A7B8C9D0'' = Some ''64b7f3a2c1d4e5f6a7b8c9d0''"
  by (simp add: castObjectId_def lowerHex_def)

text \<open>
  C10. \<open>deleteUser\<close> is meant never to remove the caller's own record, and it answers 400
  when the path id is the caller's id letter for letter. The guard compares strings,
  though, and the store does not: an admin who writes their own id with upper-case
  hexadecimal digits passes the guard, and the record found and deleted is their own.
\<close>

theorem delete_user_own_id_upper_case:
  "role boss = ''admin'' \<and> users1 (u_id boss) = Some boss
   \<and> castObjectId ''64B7F3A2C1D4E5F6A7B8C9D0'' = Some (u_id boss)
   \<and> deleteUser users1 (Some boss) ''64B7F3A2C1D4E5F6A7B8C9D0''
        = (users1(u_id boss := None), Response 200 ''User deleted successfully'' None)
   \<and> fst (deleteUser users1 (Some boss) ''64B7F3A2C1D4E5F6A7B8C9D0'') (u_id boss) = None"
  by (simp add: sample_defs deleteUser_def cast_upper_case)

end
